theory Spec2Isabelle
  imports Complex_Main
begin

section \<open>Numbers\<close>

text \<open>
  The plugin computes with JavaScript numbers, IEEE doubles. Finite numbers are modelled as
  reals. Where a branch, a count or a special value of the program depends on how a result is
  rounded (the motion statistics, lines 408--456, and the buffer capacity, line 206), every
  arithmetic operation rounds its exact result with \<open>rnd\<close>, a parameter of the functions
  concerned: what is proved of them holds for every rounding function, among them rounding
  to the nearest double, and \<open>exact\<close> is the function that does not round. Overflow is not
  modelled. The other computations (motion magnitude, heave, period, direction) are in exact
  arithmetic. The divisions whose divisor can be zero and the square root whose argument
  can be negative give the special values that JavaScript gives there.
\<close>

datatype jsnum = Finite real | PosInfinity | NegInfinity | NaN

definition exact :: "real \<Rightarrow> real" where
  "exact x = x"

definition js_div :: "(real \<Rightarrow> real) \<Rightarrow> real \<Rightarrow> real \<Rightarrow> jsnum" where
  \<comment> \<open>\<^verbatim>\<open>a / b\<close> for finite operands, the divisor never being the negative zero\<close>
  "js_div rnd a b =
     (if b \<noteq> 0 then Finite (rnd (a / b))
      else if a = 0 then NaN
      else if 0 < a then PosInfinity else NegInfinity)"

definition isNaN :: "jsnum \<Rightarrow> bool" where
  "isNaN x = (case x of NaN \<Rightarrow> True | _ \<Rightarrow> False)"

definition js_ceil :: "jsnum \<Rightarrow> jsnum" where
  "js_ceil x = (case x of Finite r \<Rightarrow> Finite (of_int \<lceil>r\<rceil>) | _ \<Rightarrow> x)"

definition js_gt :: "real \<Rightarrow> jsnum \<Rightarrow> bool" where
  \<comment> \<open>\<^verbatim>\<open>a > x\<close> for a finite \<open>a\<close>\<close>
  "js_gt a x =
     (case x of Finite r \<Rightarrow> r < a | PosInfinity \<Rightarrow> False | NegInfinity \<Rightarrow> True | NaN \<Rightarrow> False)"

definition js_exceeds :: "jsnum \<Rightarrow> real \<Rightarrow> bool" where
  \<comment> \<open>\<^verbatim>\<open>x > a\<close> for a finite \<open>a\<close>\<close>
  "js_exceeds x a =
     (case x of Finite r \<Rightarrow> a < r | PosInfinity \<Rightarrow> True | NegInfinity \<Rightarrow> False | NaN \<Rightarrow> False)"

definition js_pos :: "jsnum \<Rightarrow> bool" where
  \<comment> \<open>\<^verbatim>\<open>x > 0\<close>\<close>
  "js_pos x = js_exceeds x 0"

definition atan2 :: "real \<Rightarrow> real \<Rightarrow> real" where
  \<comment> \<open>\<^verbatim>\<open>Math.atan2(y, x)\<close> on reals (one zero, no signed zeros)\<close>
  "atan2 y x =
     (if 0 < x then arctan (y / x)
      else if x < 0 then (if 0 \<le> y then arctan (y / x) + pi else arctan (y / x) - pi)
      else if 0 < y then pi / 2
      else if y < 0 then - (pi / 2)
      else 0)"

definition hypot :: "real \<Rightarrow> real \<Rightarrow> real" where
  "hypot a b = sqrt (a * a + b * b)"

section \<open>Data model\<close>

text \<open>
  \<^verbatim>\<open>./types\<close> is imported by \<^verbatim>\<open>index.ts\<close>; the records below have the fields
  that \<^verbatim>\<open>index.ts\<close> reads and writes. Of \<^verbatim>\<open>PluginConfig\<close> only the fields the
  calculations read are kept; \<^verbatim>\<open>lastAttitude\<close> is flattened into
  \<open>lastPitch\<close>, \<open>lastRoll\<close>, \<open>lastYaw\<close>, \<open>lastTimestamp\<close>.
\<close>

record AttitudeBufferEntry =
  pitch :: real
  roll :: real
  yaw :: "real option"
  timestamp :: real
  motionMagnitude :: real

record ZeroCrossing =
  time :: real
  index :: nat

datatype axis = AxisPitch | AxisRoll | AxisCombined

record MotionStatistics =
  pitchVariance :: real
  rollVariance :: real
  crossCorrelation :: jsnum
  dominantMotionAxis :: axis
  motionPhaseShift :: real

record PluginConfig =
  waveMultiplier :: real
  updateRate :: real
  enableHeave :: bool
  enablePeriod :: bool
  enableDirection :: bool
  vesselLength :: real
  periodBufferSize :: real
  minimumPeriod :: real
  maximumPeriod :: real
  directionSmoothing :: real

record PluginState =
  lastPitch :: "real option"
  lastRoll :: "real option"
  lastYaw :: "real option"
  lastTimestamp :: "string option"
  lastHeading :: "real option"
  attitudeBuffer :: "AttitudeBufferEntry list"
  maxBufferSize :: jsnum
  periods :: "real list"
  directionBuffer :: "real list"
  lastDirection :: "real option"
  directionConfidence :: real
  currentConfig :: PluginConfig

record SeaStateResults =
  waveHeight :: real
  heave :: "real option"
  period :: "real option"
  direction :: "real option"
  directionDegrees :: "real option"
  directionConfidence_out :: real
  motionMagnitude_out :: real

section \<open>Start-up\<close>

definition defaultConfig :: PluginConfig where
  \<comment> \<open>lines 173--188 with no option given and no \<^verbatim>\<open>design.length\<close>\<close>
  "defaultConfig =
     \<lparr>waveMultiplier = 1 / 2, updateRate = 1000, enableHeave = True, enablePeriod = True,
      enableDirection = True, vesselLength = 12, periodBufferSize = 30, minimumPeriod = 2,
      maximumPeriod = 20, directionSmoothing = 3 / 10\<rparr>"

definition initialState :: PluginState where
  \<comment> \<open>lines 41--63; the empty \<^verbatim>\<open>currentConfig\<close> object is replaced by \<open>start\<close> before
      the first tick and stands here as the defaults\<close>
  "initialState =
     \<lparr>lastPitch = None, lastRoll = None, lastYaw = None, lastTimestamp = None,
      lastHeading = None, attitudeBuffer = [], maxBufferSize = Finite 30,
      periods = [], directionBuffer = [], lastDirection = None, directionConfidence = 0,
      currentConfig = defaultConfig\<rparr>"

definition start :: "(real \<Rightarrow> real) \<Rightarrow> PluginConfig \<Rightarrow> PluginState \<Rightarrow> PluginState" where
  \<comment> \<open>lines 204--206 of \<^verbatim>\<open>plugin.start\<close>: the product and the quotient are rounded, the
      ceiling is exact\<close>
  "start rnd config st =
     st\<lparr>currentConfig := config,
        maxBufferSize :=
          js_ceil (js_div rnd (rnd (periodBufferSize config * 1000)) (updateRate config))\<rparr>"

section \<open>Attitude updates\<close>

record AttitudeValue =
  v_pitch :: "real option"
  v_roll :: "real option"
  v_yaw :: "real option"

definition updateAttitudeFromValue :: "AttitudeValue \<Rightarrow> string \<Rightarrow> PluginState \<Rightarrow> PluginState" where
  \<comment> \<open>lines 370--387; a field of \<open>value\<close> that is not a number is \<open>None\<close>\<close>
  "updateAttitudeFromValue v ts st =
     (let st1 = (case v_pitch v of Some p \<Rightarrow> st\<lparr>lastPitch := Some p\<rparr> | None \<Rightarrow> st);
          st2 = (case v_roll v of Some r \<Rightarrow> st1\<lparr>lastRoll := Some r\<rparr> | None \<Rightarrow> st1);
          st3 = (case v_yaw v of Some y \<Rightarrow> st2\<lparr>lastYaw := Some y\<rparr> | None \<Rightarrow> st2)
      in st3\<lparr>lastTimestamp := Some ts\<rparr>)"

section \<open>Heave\<close>

definition calculateHeave :: "real \<Rightarrow> real \<Rightarrow> real" where
  "calculateHeave pitchRad vesselLen = vesselLen * sin pitchRad"

section \<open>Motion statistics\<close>

definition findPeaks :: "real list \<Rightarrow> nat list" where
  \<comment> \<open>lines 468--476: the loop over \<open>i = 1 .. length - 2\<close>\<close>
  "findPeaks vals =
     foldl (\<lambda>peaks i.
              if vals ! (i - 1) < vals ! i \<and> vals ! (i + 1) < vals ! i then peaks @ [i] else peaks)
       [] [1 ..< length vals - 1]"

definition meanOf :: "(real \<Rightarrow> real) \<Rightarrow> real list \<Rightarrow> real" where
  \<comment> \<open>lines 412--413; callers have a non-empty list\<close>
  "meanOf rnd vals = rnd (foldl (\<lambda>a b. rnd (a + b)) 0 vals / real (length vals))"

definition varianceOf :: "(real \<Rightarrow> real) \<Rightarrow> real list \<Rightarrow> real" where
  \<comment> \<open>lines 415--416\<close>
  "varianceOf rnd vals =
     rnd (foldl (\<lambda>acc val. rnd (acc + rnd (rnd (val - meanOf rnd vals) ^ 2))) 0 vals
            / real (length vals))"

definition crossSum :: "(real \<Rightarrow> real) \<Rightarrow> real list \<Rightarrow> real list \<Rightarrow> real" where
  \<comment> \<open>line 420: the reduce with the index \<open>i\<close> into \<open>rollValues\<close>\<close>
  "crossSum rnd pitchValues rollValues =
     foldl (\<lambda>acc i. rnd (acc + rnd (rnd (pitchValues ! i - meanOf rnd pitchValues)
                                      * rnd (rollValues ! i - meanOf rnd rollValues))))
       0 [0 ..< length pitchValues]"

definition crossCorrelationOf :: "(real \<Rightarrow> real) \<Rightarrow> real list \<Rightarrow> real list \<Rightarrow> jsnum" where
  \<comment> \<open>lines 419--421; \<^verbatim>\<open>Math.sqrt\<close> of a negative number is not a number, and so is the
      quotient then\<close>
  "crossCorrelationOf rnd pitchValues rollValues =
     (let product = rnd (varianceOf rnd pitchValues * varianceOf rnd rollValues)
      in if product < 0 then NaN
         else js_div rnd (crossSum rnd pitchValues rollValues)
                (rnd (real (length pitchValues) * rnd (sqrt product))))"

definition dominantAxisOf :: "(real \<Rightarrow> real) \<Rightarrow> real \<Rightarrow> real \<Rightarrow> axis" where
  \<comment> \<open>lines 424--433\<close>
  "dominantAxisOf rnd pitchVar rollVar =
     (let varianceRatio = js_div rnd pitchVar (rnd (rollVar + rnd (1 / 10 ^ 10)))
      in if js_exceeds varianceRatio 2 then AxisPitch
         else if js_gt (1 / 2) varianceRatio then AxisRoll
         else AxisCombined)"

definition nearestPeak :: "nat list \<Rightarrow> nat \<Rightarrow> nat" where
  \<comment> \<open>lines 446--448: \<open>reduce\<close> without an initial value, on a non-empty list\<close>
  "nearestPeak rollPeaks pitchPeak =
     foldl (\<lambda>nearest rollPeak.
              if \<bar>int rollPeak - int pitchPeak\<bar> < \<bar>int nearest - int pitchPeak\<bar> then rollPeak else nearest)
       (hd rollPeaks) (tl rollPeaks)"

definition phaseShiftOf :: "(real \<Rightarrow> real) \<Rightarrow> real \<Rightarrow> real list \<Rightarrow> real list \<Rightarrow> real" where
  \<comment> \<open>lines 436--456, for a buffer of more than 10 entries\<close>
  "phaseShiftOf rnd rate pitchValues rollValues =
     (let pitchPeaks = findPeaks pitchValues; rollPeaks = findPeaks rollValues
      in if pitchPeaks \<noteq> [] \<and> rollPeaks \<noteq> [] then
           (let timeDiffs =
                  foldl (\<lambda>diffs pitchPeak.
                           diffs @ [rnd (real_of_int (int (nearestPeak rollPeaks pitchPeak) - int pitchPeak)
                                          * rate)])
                    [] pitchPeaks
            in if timeDiffs \<noteq> []
               then rnd (foldl (\<lambda>a b. rnd (a + b)) 0 timeDiffs / real (length timeDiffs))
               else 0)
         else 0)"

definition calculateMotionStatistics ::
  "(real \<Rightarrow> real) \<Rightarrow> PluginConfig \<Rightarrow> AttitudeBufferEntry list \<Rightarrow> MotionStatistics" where
  "calculateMotionStatistics rnd config buffer =
     (if length buffer < 5 then
        \<lparr>pitchVariance = 0, rollVariance = 0, crossCorrelation = Finite 0,
         dominantMotionAxis = AxisCombined, motionPhaseShift = 0\<rparr>
      else
        (let pitchValues = map pitch buffer;
             rollValues = map roll buffer;
             pitchVar = varianceOf rnd pitchValues;
             rollVar = varianceOf rnd rollValues;
             crossCorr = crossCorrelationOf rnd pitchValues rollValues
         in \<lparr>pitchVariance = pitchVar, rollVariance = rollVar,
             crossCorrelation = (if isNaN crossCorr then Finite 0 else crossCorr),
             dominantMotionAxis = dominantAxisOf rnd pitchVar rollVar,
             motionPhaseShift =
               (if 10 < length buffer then phaseShiftOf rnd (updateRate config) pitchValues rollValues
                else 0)\<rparr>))"

section \<open>Wave direction\<close>

definition ensureRange :: "real \<Rightarrow> real" where
  \<comment> \<open>lines 538--543 and 558--563: one subtraction, then one addition\<close>
  "ensureRange a =
     (let a1 = (if 2 * pi \<le> a then a - 2 * pi else a)
      in if a1 < 0 then a1 + 2 * pi else a1)"

definition wrapDelta :: "real \<Rightarrow> real" where
  \<comment> \<open>lines 552--553 and 583--584\<close>
  "wrapDelta d =
     (let d1 = (if pi < d then d - 2 * pi else d)
      in if d1 < - pi then d1 + 2 * pi else d1)"

definition vectorSum :: "AttitudeBufferEntry list \<Rightarrow> real \<times> real" where
  \<comment> \<open>lines 496--505: \<open>(sumX, sumY)\<close> after the \<open>forEach\<close>\<close>
  "vectorSum recentBuffer =
     foldl (\<lambda>(sumX, sumY) entry.
              (let motionAngle = atan2 (roll entry) (pitch entry)
               in (sumX + cos motionAngle * motionMagnitude entry,
                   sumY + sin motionAngle * motionMagnitude entry)))
       (0, 0) recentBuffer"

definition calculateRelativeWaveDirection ::
  "AttitudeBufferEntry list \<Rightarrow> MotionStatistics \<Rightarrow> real option" where
  "calculateRelativeWaveDirection buffer stats =
     (if length buffer < 10 then None
      else
        (let relativeDirection =
               (if dominantMotionAxis stats = AxisPitch then
                  (if js_pos (crossCorrelation stats) then 0 else pi)
                else if dominantMotionAxis stats = AxisRoll then
                  (if js_pos (crossCorrelation stats) then pi / 2 else (3 * pi) / 2)
                else
                  (let recentBuffer = drop (length buffer - 10) buffer;
                       (sumX, sumY) = vectorSum recentBuffer
                   in atan2 sumY sumX))
         in Some (if relativeDirection < 0 then relativeDirection + 2 * pi else relativeDirection)))"

definition rawAbsoluteDirection :: "real \<Rightarrow> real \<Rightarrow> real" where
  \<comment> \<open>lines 535--543: the absolute direction before smoothing\<close>
  "rawAbsoluteDirection relativeDirection heading = ensureRange (relativeDirection + heading)"

definition smoothDirection :: "real \<Rightarrow> real option \<Rightarrow> real \<Rightarrow> real" where
  \<comment> \<open>lines 546--564\<close>
  "smoothDirection smoothing lastD absoluteDirection =
     (case lastD of
        None \<Rightarrow> absoluteDirection
      | Some lastDir \<Rightarrow> ensureRange (lastDir + smoothing * wrapDelta (absoluteDirection - lastDir)))"

definition confidenceOf :: "real list \<Rightarrow> real" where
  \<comment> \<open>lines 574--589, for a direction buffer of more than 5 entries\<close>
  "confidenceOf directions =
     (let avgDirection =
            atan2 (foldl (\<lambda>sum dir. sum + sin dir) 0 directions / real (length directions))
                  (foldl (\<lambda>sum dir. sum + cos dir) 0 directions / real (length directions));
          variance =
            foldl (\<lambda>sum dir. (let diff = wrapDelta (dir - avgDirection) in sum + diff * diff))
              0 directions / real (length directions)
      in max 0 (1 - variance / ((pi * pi) / 4)))"

definition calculateAbsoluteWaveDirection ::
  "PluginState \<Rightarrow> AttitudeBufferEntry list \<Rightarrow> MotionStatistics \<Rightarrow> real option \<times> PluginState" where
  "calculateAbsoluteWaveDirection st buffer stats =
     (case lastHeading st of
        None \<Rightarrow> (None, st)
      | Some heading \<Rightarrow>
          (case calculateRelativeWaveDirection buffer stats of
             None \<Rightarrow> (None, st)
           | Some relativeDirection \<Rightarrow>
               (let absoluteDirection =
                      smoothDirection (directionSmoothing (currentConfig st)) (lastDirection st)
                        (rawAbsoluteDirection relativeDirection heading);
                    pushed = directionBuffer st @ [absoluteDirection];
                    directions = (if 10 < length pushed then tl pushed else pushed);
                    confidence =
                      (if 5 < length directions then confidenceOf directions
                       else directionConfidence st)
                in (Some absoluteDirection,
                    st\<lparr>directionBuffer := directions, directionConfidence := confidence,
                       lastDirection := Some absoluteDirection\<rparr>))))"

section \<open>Wave period\<close>

definition zeroCrossings :: "AttitudeBufferEntry list \<Rightarrow> ZeroCrossing list" where
  \<comment> \<open>lines 605--620\<close>
  "zeroCrossings buffer =
     foldl (\<lambda>zcs i.
              (let prev = roll (buffer ! (i - 1)); curr = roll (buffer ! i)
               in if (prev < 0 \<and> 0 \<le> curr) \<or> (0 < prev \<and> curr \<le> 0)
                  then zcs @ [\<lparr>time = timestamp (buffer ! i), index = i\<rparr>] else zcs))
       [] [1 ..< length buffer]"

definition currentPeriodsOf :: "PluginConfig \<Rightarrow> ZeroCrossing list \<Rightarrow> real list" where
  \<comment> \<open>lines 625--634\<close>
  "currentPeriodsOf config zcs =
     foldl (\<lambda>currentPeriods j.
              (let timeDiff = time (zcs ! j) - time (zcs ! (j - 1));
                   periodSeconds = timeDiff / 1000
               in if minimumPeriod config \<le> periodSeconds \<and> periodSeconds \<le> maximumPeriod config
                  then currentPeriods @ [periodSeconds * 2] else currentPeriods))
       [] [1 ..< length zcs]"

definition calculatePeriod :: "PluginState \<Rightarrow> real option \<times> PluginState" where
  "calculatePeriod st =
     (if length (attitudeBuffer st) < 10 then (None, st)
      else
        (let zcs = zeroCrossings (attitudeBuffer st)
         in if length zcs < 2 then (None, st)
            else
              (let currentPeriods = currentPeriodsOf (currentConfig st) zcs
               in if length currentPeriods = 0 then (None, st)
                  else
                    (let avgPeriod = foldl (\<lambda>a b. a + b) 0 currentPeriods / real (length currentPeriods);
                         pushed = periods st @ [avgPeriod];
                         kept = (if 10 < length pushed then tl pushed else pushed)
                     in (Some (foldl (\<lambda>a b. a + b) 0 kept / real (length kept)),
                         st\<lparr>periods := kept\<rparr>)))))"

section \<open>The tick\<close>

definition pushEntry :: "jsnum \<Rightarrow> AttitudeBufferEntry list \<Rightarrow> AttitudeBufferEntry \<Rightarrow> AttitudeBufferEntry list" where
  \<comment> \<open>lines 679--684: \<open>push\<close>, then one \<open>shift\<close> when the length exceeds \<open>maxBufferSize\<close>\<close>
  "pushEntry maxSize buffer bufferEntry =
     (let pushed = buffer @ [bufferEntry]
      in if js_gt (real (length pushed)) maxSize then tl pushed else pushed)"

definition bufferEntryOf :: "PluginState \<Rightarrow> real \<Rightarrow> real \<Rightarrow> real \<Rightarrow> AttitudeBufferEntry" where
  \<comment> \<open>lines 663--677; \<^verbatim>\<open>yaw || undefined\<close> drops an absent yaw and the yaw 0\<close>
  "bufferEntryOf st p r now =
     (let pitchDeg = p * (180 / pi);
          rollDeg = r * (180 / pi)
      in \<lparr>pitch = p, roll = r,
          yaw = (case lastYaw st of Some y \<Rightarrow> (if y = 0 then None else Some y) | None \<Rightarrow> None),
          timestamp = now, motionMagnitude = hypot pitchDeg rollDeg\<rparr>)"

definition periodStage :: "PluginState \<Rightarrow> real option \<times> PluginState" where
  \<comment> \<open>lines 695--698\<close>
  "periodStage st =
     (if enablePeriod (currentConfig st) \<and> 10 \<le> length (attitudeBuffer st) then calculatePeriod st
      else (None, st))"

definition directionStage :: "(real \<Rightarrow> real) \<Rightarrow> PluginState \<Rightarrow> real option \<times> PluginState" where
  \<comment> \<open>lines 700--708\<close>
  "directionStage rnd st =
     (if enableDirection (currentConfig st) \<and> 10 \<le> length (attitudeBuffer st) then
        calculateAbsoluteWaveDirection st (attitudeBuffer st)
          (calculateMotionStatistics rnd (currentConfig st) (attitudeBuffer st))
      else (None, st))"

definition calculateSeaState ::
  "(real \<Rightarrow> real) \<Rightarrow> PluginState \<Rightarrow> real \<Rightarrow> SeaStateResults option \<times> PluginState" where
  \<comment> \<open>lines 653--736; \<open>now\<close> is the value of \<^verbatim>\<open>Date.now()\<close>; the result is what is handed
      to \<^verbatim>\<open>emitSeaStateData\<close>, \<open>None\<close> when the function returns before\<close>
  "calculateSeaState rnd st now =
     (case (lastPitch st, lastRoll st) of
        (Some p, Some r) \<Rightarrow>
          (let bufferEntry = bufferEntryOf st p r now;
               st1 = st\<lparr>attitudeBuffer := pushEntry (maxBufferSize st) (attitudeBuffer st) bufferEntry\<rparr>;
               height = waveMultiplier (currentConfig st1) * motionMagnitude bufferEntry;
               hv = (if enableHeave (currentConfig st1)
                     then Some (calculateHeave p (vesselLength (currentConfig st1))) else None);
               (per, st2) = periodStage st1;
               (dir, st3) = directionStage rnd st2
           in (Some \<lparr>waveHeight = height, heave = hv, period = per, direction = dir,
                      directionDegrees = map_option (\<lambda>d. (d * 180) / pi) dir,
                      directionConfidence_out = directionConfidence st3,
                      motionMagnitude_out = motionMagnitude bufferEntry\<rparr>,
               st3))
      | _ \<Rightarrow> (None, st))"


section \<open>Event streams\<close>

datatype event = AttitudeEvent AttitudeValue string real | HeadingEvent real

fun step :: "(real \<Rightarrow> real) \<Rightarrow> PluginState \<Rightarrow> event \<Rightarrow> SeaStateResults option \<times> PluginState" where
  \<comment> \<open>the stream handlers, lines 279--294\<close>
  "step rnd st (AttitudeEvent v ts now) = calculateSeaState rnd (updateAttitudeFromValue v ts st) now"
| "step rnd st (HeadingEvent h) = (None, st\<lparr>lastHeading := Some h\<rparr>)"

fun run :: "(real \<Rightarrow> real) \<Rightarrow> PluginState \<Rightarrow> event list \<Rightarrow> SeaStateResults option list \<times> PluginState" where
  "run rnd st [] = ([], st)"
| "run rnd st (e # es) =
     (let (out, st1) = step rnd st e; (outs, st2) = run rnd st1 es in (out # outs, st2))"

section \<open>The formulas of the specification\<close>


definition roundedSum :: "(real \<Rightarrow> real) \<Rightarrow> real list \<Rightarrow> real" where
  \<comment> \<open>\<open>\<Sigma>\<close> in the arithmetic of the code: added from left to right, every partial sum rounded\<close>
  "roundedSum rnd xs = foldl (\<lambda>acc x. rnd (acc + x)) 0 xs"

definition roundedMean_spec :: "(real \<Rightarrow> real) \<Rightarrow> real list \<Rightarrow> real" where
  "roundedMean_spec rnd xs = rnd (roundedSum rnd xs / real (length xs))"

definition variance_spec :: "(real \<Rightarrow> real) \<Rightarrow> real list \<Rightarrow> real" where
  \<comment> \<open>population variance: divide by \<open>N\<close>\<close>
  "variance_spec rnd xs =
     rnd (roundedSum rnd (map (\<lambda>x. rnd (rnd (x - roundedMean_spec rnd xs) ^ 2)) xs) / real (length xs))"

definition covarianceSum_spec :: "(real \<Rightarrow> real) \<Rightarrow> real list \<Rightarrow> real list \<Rightarrow> real" where
  \<comment> \<open>\<open>\<Sigma> (pitch - meanP) (roll - meanR)\<close>\<close>
  "covarianceSum_spec rnd ps rs =
     roundedSum rnd
       (map (\<lambda>i. rnd (rnd (ps ! i - roundedMean_spec rnd ps) * rnd (rs ! i - roundedMean_spec rnd rs)))
          [0 ..< length ps])"

definition quotientByRoot :: "(real \<Rightarrow> real) \<Rightarrow> real \<Rightarrow> nat \<Rightarrow> real \<Rightarrow> jsnum" where
  \<comment> \<open>\<open>s / (N * sqrt radicand)\<close>, not a number when the radicand is negative\<close>
  "quotientByRoot rnd s n radicand =
     (if radicand < 0 then NaN else js_div rnd s (rnd (real n * rnd (sqrt radicand))))"

definition crossCorrelation_spec :: "(real \<Rightarrow> real) \<Rightarrow> real list \<Rightarrow> real list \<Rightarrow> jsnum" where
  \<comment> \<open>\<open>\<Sigma>(pitch - meanP)(roll - meanR) / (N * sqrt (varP * varR + \<epsilon>))\<close> with \<open>\<epsilon> = 1e-10\<close>\<close>
  "crossCorrelation_spec rnd ps rs =
     quotientByRoot rnd (covarianceSum_spec rnd ps rs) (length ps)
       (rnd (rnd (variance_spec rnd ps * variance_spec rnd rs) + rnd (1 / 10 ^ 10)))"



section \<open>Streams that differ in yaw only\<close>

definition eraseYawEntry :: "AttitudeBufferEntry \<Rightarrow> AttitudeBufferEntry" where
  "eraseYawEntry entry = entry\<lparr>yaw := None\<rparr>"

definition eraseYawState :: "PluginState \<Rightarrow> PluginState" where
  "eraseYawState st = st\<lparr>lastYaw := None, attitudeBuffer := map eraseYawEntry (attitudeBuffer st)\<rparr>"

fun eraseYawEvent :: "event \<Rightarrow> event" where
  "eraseYawEvent (AttitudeEvent v ts now) = AttitudeEvent (v\<lparr>v_yaw := None\<rparr>) ts now"
| "eraseYawEvent (HeadingEvent h) = HeadingEvent h"

section \<open>A vessel at rest\<close>

text \<open>
  The stream used in the examples below: one heading, then attitude samples with pitch and
  roll 0 at the given values of \<^verbatim>\<open>Date.now()\<close>.
\<close>

definition calmSample :: "real \<Rightarrow> event" where
  "calmSample t = AttitudeEvent \<lparr>v_pitch = Some 0, v_roll = Some 0, v_yaw = None\<rparr> [] t"

definition calmStream :: "real \<Rightarrow> real list \<Rightarrow> event list" where
  "calmStream heading ts = HeadingEvent heading # map calmSample ts"

section \<open>Auxiliary facts\<close>



lemma atan2_bounds: "- pi < atan2 y x \<and> atan2 y x \<le> pi"
proof -
  have b: "- (pi / 2) < arctan (y / x)" "arctan (y / x) < pi / 2"
    using arctan_lbound arctan_ubound by blast+
  consider "0 < x" | "x < 0" "0 \<le> y" | "x < 0" "y < 0" | "x = 0" by linarith
  then show ?thesis
  proof cases
    case 1 then show ?thesis using b by (simp add: atan2_def)
  next
    case 2
    then have "y / x \<le> 0" by (simp add: divide_nonneg_neg)
    then have "arctan (y / x) \<le> 0" using arctan_le_zero_iff by blast
    then show ?thesis using 2 b by (simp add: atan2_def)
  next
    case 3
    then have "0 < y / x" by (simp add: divide_neg_neg)
    then have "0 < arctan (y / x)" using zero_less_arctan_iff by blast
    then show ?thesis using 3 b by (simp add: atan2_def)
  next
    case 4
    have v: "atan2 y x = (if 0 < y then pi / 2 else if y < 0 then - (pi / 2) else 0)"
      using 4 by (simp add: atan2_def)
    have "0 < pi" by (rule pi_gt_zero)
    then show ?thesis unfolding v by (cases "0 < y"; cases "y < 0"; simp; linarith)
  qed
qed

subsection \<open>The stages of a tick\<close>

lemma periodStage_state: "snd (periodStage st) = st\<lparr>periods := periods (snd (periodStage st))\<rparr>"
  by (simp add: periodStage_def calculatePeriod_def Let_def)

lemma directionStage_state:
  "snd (directionStage rnd st) =
     st\<lparr>directionBuffer := directionBuffer (snd (directionStage rnd st)),
        directionConfidence := directionConfidence (snd (directionStage rnd st)),
        lastDirection := lastDirection (snd (directionStage rnd st))\<rparr>"
  by (simp add: directionStage_def calculateAbsoluteWaveDirection_def Let_def split: option.splits)

lemma calculateSeaState_Some:
  assumes "lastPitch st = Some p" "lastRoll st = Some r"
  shows "calculateSeaState rnd st now =
     (let bufferEntry = bufferEntryOf st p r now;
          st1 = st\<lparr>attitudeBuffer := pushEntry (maxBufferSize st) (attitudeBuffer st) bufferEntry\<rparr>;
          st2 = snd (periodStage st1);
          st3 = snd (directionStage rnd st2)
      in (Some \<lparr>waveHeight = waveMultiplier (currentConfig st) * motionMagnitude bufferEntry,
                 heave = (if enableHeave (currentConfig st)
                          then Some (calculateHeave p (vesselLength (currentConfig st))) else None),
                 period = fst (periodStage st1),
                 direction = fst (directionStage rnd st2),
                 directionDegrees = map_option (\<lambda>d. (d * 180) / pi) (fst (directionStage rnd st2)),
                 directionConfidence_out = directionConfidence st3,
                 motionMagnitude_out = motionMagnitude bufferEntry\<rparr>,
          st3))"
  using assms by (simp add: calculateSeaState_def Let_def case_prod_beta)

lemma tick_buffer:
  assumes "lastPitch st = Some p" "lastRoll st = Some r"
  shows "attitudeBuffer (snd (calculateSeaState rnd st now)) =
           pushEntry (maxBufferSize st) (attitudeBuffer st) (bufferEntryOf st p r now)"
proof -
  let ?st1 = "st\<lparr>attitudeBuffer := pushEntry (maxBufferSize st) (attitudeBuffer st) (bufferEntryOf st p r now)\<rparr>"
  have "attitudeBuffer (snd (directionStage rnd (snd (periodStage ?st1)))) = attitudeBuffer (snd (periodStage ?st1))"
    by (subst directionStage_state) simp
  also have "\<dots> = attitudeBuffer ?st1" by (subst periodStage_state) simp
  finally show ?thesis using assms by (simp add: calculateSeaState_Some Let_def)
qed

section \<open>The heave value\<close>

text \<open>
  C9. For every pitch (radians) and every vessel length \<open>L\<close> the heave computation returns
  exactly \<open>L * sin pitch\<close>, and pitch 0 gives heave 0. The tick hands over this value: with
  pitch and roll known and heave enabled, the heave of the result is the configured vessel
  length times the sine of the last pitch.
\<close>

theorem heave_is_length_times_sin_pitch:
  "calculateHeave p L = L * sin p \<and> calculateHeave 0 L = 0 \<and>
   (lastPitch st = Some p \<and> lastRoll st = Some r \<and> enableHeave (currentConfig st) \<longrightarrow>
      (\<exists>res. fst (calculateSeaState rnd st now) = Some res \<and>
             heave res = Some (vesselLength (currentConfig st) * sin p)))"
  by (simp add: calculateSeaState_def Let_def calculateHeave_def split: prod.splits)

theorem heave_is_length_times_sin_pitch_witness:
  "lastPitch (initialState\<lparr>lastPitch := Some 0, lastRoll := Some 1\<rparr>) = Some 0 \<and>
   lastRoll (initialState\<lparr>lastPitch := Some 0, lastRoll := Some 1\<rparr>) = Some 1 \<and>
   enableHeave (currentConfig (initialState\<lparr>lastPitch := Some 0, lastRoll := Some 1\<rparr>)) \<and>
   (\<exists>res. fst (calculateSeaState exact (initialState\<lparr>lastPitch := Some 0, lastRoll := Some 1\<rparr>) 5) = Some res \<and>
          heave res = Some 0)"
  using heave_is_length_times_sin_pitch
          [of 0 12 "initialState\<lparr>lastPitch := Some 0, lastRoll := Some 1\<rparr>" 1 exact 5]
  by (simp add: initialState_def defaultConfig_def)

section \<open>A tick without pitch or roll\<close>

text \<open>
  C7. On a tick where the last-known pitch or the last-known roll is absent, the tick is a
  no-op: the whole state (sample buffer, period history, direction history, smoothing state,
  confidence) is returned unchanged and no result is handed to the emitter.
\<close>

theorem tick_without_pitch_or_roll_is_noop:
  "lastPitch st = None \<or> lastRoll st = None \<Longrightarrow> calculateSeaState rnd st now = (None, st)"
  by (auto simp: calculateSeaState_def split: option.splits)

theorem tick_without_pitch_or_roll_is_noop_witness:
  "(lastPitch (initialState\<lparr>lastPitch := Some 1\<rparr>) = None \<or>
    lastRoll (initialState\<lparr>lastPitch := Some 1\<rparr>) = None) \<and>
   calculateSeaState exact (initialState\<lparr>lastPitch := Some 1\<rparr>) 7 = (None, initialState\<lparr>lastPitch := Some 1\<rparr>)"
proof -
  have h: "lastPitch (initialState\<lparr>lastPitch := Some 1\<rparr>) = None \<or>
           lastRoll (initialState\<lparr>lastPitch := Some 1\<rparr>) = None"
    by (simp add: initialState_def)
  show ?thesis using h tick_without_pitch_or_roll_is_noop [OF h, of exact 7] by simp
qed

section \<open>The sample buffer\<close>

lemma maxBufferSize_start:
  "0 < updateRate config \<Longrightarrow>
   maxBufferSize (start rnd config st)
     = Finite (of_int \<lceil>rnd (rnd (periodBufferSize config * 1000) / updateRate config)\<rceil>)"
  by (simp add: start_def js_ceil_def js_div_def)

lemma pushEntry_Finite:
  "pushEntry (Finite (of_int c)) buffer e =
     (if c < int (length buffer) + 1 then tl (buffer @ [e]) else buffer @ [e])"
  by (simp add: pushEntry_def js_gt_def Let_def)

lemma foldl_pushEntry_drop:
  assumes "0 \<le> c"
  shows "foldl (pushEntry (Finite (of_int c))) [] es = drop (length es - nat c) es"
proof (induction es rule: rev_induct)
  case Nil
  show ?case by simp
next
  case (snoc e es)
  define b where "b = drop (length es - nat c) es"
  have step: "foldl (pushEntry (Finite (of_int c))) [] (es @ [e]) = pushEntry (Finite (of_int c)) b e"
    using snoc by (simp add: b_def)
  show ?case
  proof (cases "nat c \<le> length es")
    case le: True
    then have lb: "length b = nat c" by (simp add: b_def)
    then have full: "c < int (length b) + 1" using assms by linarith
    have "pushEntry (Finite (of_int c)) b e = tl (b @ [e])"
      using full by (simp only: pushEntry_Finite if_True)
    also have "\<dots> = drop (length (es @ [e]) - nat c) (es @ [e])"
    proof (cases "nat c = 0")
      case True
      then show ?thesis using le by (simp add: b_def)
    next
      case False
      then have ne: "b \<noteq> []" using lb by auto
      then have "tl (b @ [e]) = tl b @ [e]" by simp
      also have "\<dots> = drop (Suc (length es - nat c)) es @ [e]" by (simp add: b_def drop_Suc tl_drop)
      also have "\<dots> = drop (length (es @ [e]) - nat c) (es @ [e])"
        using le False by (simp add: Suc_diff_le)
      finally show ?thesis .
    qed
    finally show ?thesis using step by simp
  next
    case False
    then have lt: "length es < nat c" by simp
    then have b: "b = es" by (simp add: b_def)
    have "\<not> c < int (length b) + 1" using lt unfolding b by linarith
    then have "pushEntry (Finite (of_int c)) b e = b @ [e]"
      by (simp only: pushEntry_Finite if_False)
    then show ?thesis using step b lt by simp
  qed
qed

lemma sorted_drop_map: "sorted (map f xs) \<Longrightarrow> sorted (map f (drop n xs))"
  by (simp add: drop_map[symmetric] sorted_wrt_drop)

text \<open>
  C6. The capacity that \<open>start\<close> computes is the ceiling of
  \<open>periodBufferSize * 1000 / updateRate\<close>, the product and the quotient taken in the
  arithmetic of the code. For a positive update rate, a non-negative buffer size and a
  rounding that keeps non-negative numbers non-negative, starting from the empty buffer,
  after any sequence of pushes the buffer is never longer than the capacity, it holds exactly
  the most recent entries in their order of arrival (so it is ascending by timestamp when the
  pushed timestamps are non-decreasing), a push on a full buffer drops exactly the oldest
  entry, and a push on a buffer that is not full drops nothing.
\<close>

theorem sample_buffer_bounded_sorted_fifo:
  assumes "0 < updateRate config" and "0 \<le> periodBufferSize config"
      and "\<forall>x. 0 \<le> x \<longrightarrow> 0 \<le> rnd x"
  shows "maxBufferSize (start rnd config st)
           = Finite (of_int \<lceil>rnd (rnd (periodBufferSize config * 1000) / updateRate config)\<rceil>) \<and>
         int (length (foldl (pushEntry (maxBufferSize (start rnd config st))) [] es))
           \<le> \<lceil>rnd (rnd (periodBufferSize config * 1000) / updateRate config)\<rceil> \<and>
         (sorted (map timestamp es) \<longrightarrow>
            sorted (map timestamp (foldl (pushEntry (maxBufferSize (start rnd config st))) [] es))) \<and>
         foldl (pushEntry (maxBufferSize (start rnd config st))) [] es
           = drop (length es - nat \<lceil>rnd (rnd (periodBufferSize config * 1000) / updateRate config)\<rceil>) es \<and>
         (int (length buffer) = \<lceil>rnd (rnd (periodBufferSize config * 1000) / updateRate config)\<rceil> \<longrightarrow>
            pushEntry (maxBufferSize (start rnd config st)) buffer e = tl (buffer @ [e]) \<and>
            (buffer \<noteq> [] \<longrightarrow> pushEntry (maxBufferSize (start rnd config st)) buffer e = tl buffer @ [e])) \<and>
         (int (length buffer) < \<lceil>rnd (rnd (periodBufferSize config * 1000) / updateRate config)\<rceil> \<longrightarrow>
            pushEntry (maxBufferSize (start rnd config st)) buffer e = buffer @ [e])"
proof -
  define c where "c = \<lceil>rnd (rnd (periodBufferSize config * 1000) / updateRate config)\<rceil>"
  have "0 \<le> rnd (periodBufferSize config * 1000)" using assms(2,3) by simp
  then have "0 \<le> rnd (periodBufferSize config * 1000) / updateRate config" using assms(1) by simp
  then have "0 \<le> rnd (rnd (periodBufferSize config * 1000) / updateRate config)"
    using assms(3) by blast
  then have c0: "0 \<le> c" unfolding c_def by linarith
  have m: "maxBufferSize (start rnd config st) = Finite (of_int c)"
    unfolding c_def using assms(1) by (rule maxBufferSize_start)
  have d: "foldl (pushEntry (Finite (of_int c))) [] es = drop (length es - nat c) es"
    using c0 by (rule foldl_pushEntry_drop)
  have len: "int (length (drop (length es - nat c) es)) \<le> c" using c0 by simp
  have srt: "sorted (map timestamp es) \<longrightarrow> sorted (map timestamp (drop (length es - nat c) es))"
    by (simp add: sorted_drop_map)
  have full: "int (length buffer) = c \<longrightarrow>
                pushEntry (Finite (of_int c)) buffer e = tl (buffer @ [e]) \<and>
                (buffer \<noteq> [] \<longrightarrow> pushEntry (Finite (of_int c)) buffer e = tl buffer @ [e])"
    by (simp add: pushEntry_Finite)
  have room: "int (length buffer) < c \<longrightarrow> pushEntry (Finite (of_int c)) buffer e = buffer @ [e]"
    by (simp add: pushEntry_Finite)
  show ?thesis unfolding m c_def[symmetric] d using len srt full room by simp
qed

theorem sample_buffer_bounded_sorted_fifo_witness:
  "(let config = defaultConfig\<lparr>periodBufferSize := 3, updateRate := 2000\<rparr>;
        e1 = \<lparr>pitch = 0, roll = 0, yaw = None, timestamp = 1, motionMagnitude = 0\<rparr>;
        e2 = \<lparr>pitch = 0, roll = 0, yaw = None, timestamp = 2, motionMagnitude = 0\<rparr>;
        e3 = \<lparr>pitch = 0, roll = 0, yaw = None, timestamp = 3, motionMagnitude = 0\<rparr>
    in 0 < updateRate config \<and> 0 \<le> periodBufferSize config \<and> (\<forall>x. 0 \<le> x \<longrightarrow> 0 \<le> exact x) \<and>
       maxBufferSize (start exact config initialState) = Finite 2 \<and>
       sorted (map timestamp [e1, e2, e3]) \<and>
       foldl (pushEntry (maxBufferSize (start exact config initialState))) [] [e1, e2, e3] = [e2, e3] \<and>
       sorted (map timestamp (foldl (pushEntry (maxBufferSize (start exact config initialState))) [] [e1, e2, e3])) \<and>
       int (length [e1, e2]) = \<lceil>exact (exact (periodBufferSize config * 1000) / updateRate config)\<rceil> \<and>
       [e1, e2] \<noteq> [] \<and>
       pushEntry (maxBufferSize (start exact config initialState)) [e1, e2] e3 = [e2, e3] \<and>
       int (length [e1]) < \<lceil>exact (exact (periodBufferSize config * 1000) / updateRate config)\<rceil> \<and>
       pushEntry (maxBufferSize (start exact config initialState)) [e1] e2 = [e1, e2])"
proof -
  have c: "\<lceil>(3::real) * 1000 / 2000\<rceil> = 2" by linarith
  have c': "\<lceil>(3::real) / 2\<rceil> = 2" by linarith
  have h1: "0 < updateRate (defaultConfig\<lparr>periodBufferSize := 3, updateRate := 2000\<rparr>)" by simp
  have h2: "0 \<le> periodBufferSize (defaultConfig\<lparr>periodBufferSize := 3, updateRate := 2000\<rparr>)" by simp
  have h3: "\<forall>x. 0 \<le> x \<longrightarrow> 0 \<le> exact x" by (simp add: exact_def)
  note t = sample_buffer_bounded_sorted_fifo [OF h1 h2 h3, of initialState]
  show ?thesis
    using t [of "[\<lparr>pitch = 0, roll = 0, yaw = None, timestamp = 1, motionMagnitude = 0\<rparr>,
                  \<lparr>pitch = 0, roll = 0, yaw = None, timestamp = 2, motionMagnitude = 0\<rparr>,
                  \<lparr>pitch = 0, roll = 0, yaw = None, timestamp = 3, motionMagnitude = 0\<rparr>]"
                "[\<lparr>pitch = 0, roll = 0, yaw = None, timestamp = 1, motionMagnitude = 0\<rparr>,
                  \<lparr>pitch = 0, roll = 0, yaw = None, timestamp = 2, motionMagnitude = 0\<rparr>]"
                "\<lparr>pitch = 0, roll = 0, yaw = None, timestamp = 3, motionMagnitude = 0\<rparr>"]
          t [of "[]" "[\<lparr>pitch = 0, roll = 0, yaw = None, timestamp = 1, motionMagnitude = 0\<rparr>]"
                "\<lparr>pitch = 0, roll = 0, yaw = None, timestamp = 2, motionMagnitude = 0\<rparr>"]
    by (simp add: c c' Let_def pushEntry_def js_gt_def exact_def start_def js_ceil_def js_div_def)
qed

section \<open>The wave period\<close>








text \<open>
  C1. The period that the tick reports can exceed \<open>maximumPeriod\<close>. With the default
  configuration (valid wave periods 2 to 20 seconds) and ten samples taken 5 seconds apart
  whose roll changes sign at 5 s and at 20 s, the two crossings are 15 s apart; the
  half-period 15 passes the filter and the reported period is 30.
\<close>

theorem reported_period_exceeds_maximumPeriod:
  "\<exists>res. last (fst (run exact (start exact defaultConfig initialState)
             (map (\<lambda>(t, r). AttitudeEvent \<lparr>v_pitch = Some 0, v_roll = Some r, v_yaw = None\<rparr> [] t)
                [(0, -1), (5000, 1), (10000, 1), (15000, 1), (20000, -1), (25000, -1), (30000, -1),
                 (35000, -1), (40000, -1), (45000, -1)]))) = Some res \<and>
         period res = Some 30 \<and> maximumPeriod defaultConfig = 20"
  by (simp add: start_def exact_def initialState_def defaultConfig_def updateAttitudeFromValue_def
        calculateSeaState_def Let_def bufferEntryOf_def pushEntry_def js_gt_def js_ceil_def js_div_def
        periodStage_def directionStage_def calculatePeriod_def zeroCrossings_def currentPeriodsOf_def
        upt_rec calculateAbsoluteWaveDirection_def)

section \<open>The cross-correlation\<close>

lemma meanOf_spec: "meanOf rnd xs = roundedMean_spec rnd xs"
  by (simp add: meanOf_def roundedMean_spec_def roundedSum_def)

lemma varianceOf_spec: "varianceOf rnd xs = variance_spec rnd xs"
  by (simp add: varianceOf_def variance_spec_def roundedSum_def foldl_map meanOf_spec)

lemma crossSum_spec: "crossSum rnd ps rs = covarianceSum_spec rnd ps rs"
  by (simp add: crossSum_def covarianceSum_spec_def roundedSum_def foldl_map meanOf_spec)

lemma crossCorrelationOf_spec:
  "crossCorrelationOf rnd ps rs =
     quotientByRoot rnd (covarianceSum_spec rnd ps rs) (length ps)
       (rnd (variance_spec rnd ps * variance_spec rnd rs))"
  by (simp add: crossCorrelationOf_def quotientByRoot_def Let_def crossSum_spec varianceOf_spec)

text \<open>
  C2 (as amended). For every buffer of length at least 5 the cross-correlation returned by the
  motion statistics is \<open>\<Sigma> (pitch\<^sub>i - meanPitch) * (roll\<^sub>i - meanRoll) / (N * sqrt (pitchVariance * rollVariance))\<close>,
  with no \<open>\<epsilon>\<close> in the denominator, evaluated in the arithmetic of the code (whatever the
  rounding), and the result is 0 whenever this quotient evaluates to not-a-number. The two
  variances it uses are the population variances that the statistics return.
\<close>

theorem crossCorrelation_without_epsilon:
  assumes "5 \<le> length buffer"
  shows "crossCorrelation (calculateMotionStatistics rnd config buffer) =
     (let quotient =
            quotientByRoot rnd (covarianceSum_spec rnd (map pitch buffer) (map roll buffer))
              (length buffer)
              (rnd (variance_spec rnd (map pitch buffer) * variance_spec rnd (map roll buffer)))
      in if isNaN quotient then Finite 0 else quotient) \<and>
     pitchVariance (calculateMotionStatistics rnd config buffer) = variance_spec rnd (map pitch buffer) \<and>
     rollVariance (calculateMotionStatistics rnd config buffer) = variance_spec rnd (map roll buffer)"
  using assms
  by (simp add: calculateMotionStatistics_def Let_def crossCorrelationOf_spec varianceOf_spec)

theorem crossCorrelation_without_epsilon_witness:
  "(let buffer = map (\<lambda>x. \<lparr>pitch = x, roll = x, yaw = None, timestamp = 0, motionMagnitude = 0\<rparr>)
                   [0, 1, 2, 3, 4]
    in 5 \<le> length buffer \<and>
       variance_spec exact (map pitch buffer) = 2 \<and> variance_spec exact (map roll buffer) = 2 \<and>
       covarianceSum_spec exact (map pitch buffer) (map roll buffer) = 10 \<and>
       quotientByRoot exact 10 (length buffer) (exact (2 * 2)) = Finite 1 \<and>
       crossCorrelation (calculateMotionStatistics exact defaultConfig buffer) = Finite 1)"
proof -
  let ?b = "map (\<lambda>x. \<lparr>pitch = x, roll = x, yaw = None, timestamp = 0, motionMagnitude = 0\<rparr>)
                   [0, 1, 2, 3, 4 :: real]"
  have h: "5 \<le> length ?b" by simp
  have v: "variance_spec exact [0, 1, 2, 3, 4] = 2"
    by (simp add: variance_spec_def roundedMean_spec_def roundedSum_def exact_def power2_eq_square)
  have c: "covarianceSum_spec exact [0, 1, 2, 3, 4] [0, 1, 2, 3, 4] = 10"
    by (simp add: covarianceSum_spec_def roundedMean_spec_def roundedSum_def exact_def upt_rec)
  show ?thesis
    using crossCorrelation_without_epsilon [OF h, of exact defaultConfig]
    by (simp add: Let_def v c isNaN_def quotientByRoot_def js_div_def exact_def)
qed

text \<open>
  C2 as stated fails: for pitch and roll both \<open>0, 1, 2, 3, 4\<close> every intermediate value of the
  code is a small integer, which no rounding changes, and the code returns exactly 1, the
  quotient by \<open>N * sqrt (varP * varR)\<close>, while the formula with \<open>\<epsilon> = 1e-10\<close> under the root is
  not 1.
\<close>

theorem crossCorrelation_epsilon_counterexample:
  "5 \<le> length
         (map (\<lambda>x. \<lparr>pitch = x, roll = x, yaw = None, timestamp = 0, motionMagnitude = 0\<rparr>)
            [0, 1, 2, 3, 4]) \<and>
   crossCorrelation
     (calculateMotionStatistics exact defaultConfig
        (map (\<lambda>x. \<lparr>pitch = x, roll = x, yaw = None, timestamp = 0, motionMagnitude = 0\<rparr>)
           [0, 1, 2, 3, 4])) = Finite 1 \<and>
   crossCorrelation_spec exact
     (map pitch (map (\<lambda>x. \<lparr>pitch = x, roll = x, yaw = None, timestamp = 0, motionMagnitude = 0\<rparr>)
                   [0, 1, 2, 3, 4]))
     (map roll (map (\<lambda>x. \<lparr>pitch = x, roll = x, yaw = None, timestamp = 0, motionMagnitude = 0\<rparr>)
                  [0, 1, 2, 3, 4])) \<noteq> Finite 1"
proof -
  let ?b = "map (\<lambda>x. \<lparr>pitch = x, roll = x, yaw = None, timestamp = 0, motionMagnitude = 0\<rparr>)
                   [0, 1, 2, 3, 4 :: real]"
  have v: "variance_spec exact [0, 1, 2, 3, 4] = 2"
    by (simp add: variance_spec_def roundedMean_spec_def roundedSum_def exact_def power2_eq_square)
  have c: "covarianceSum_spec exact [0, 1, 2, 3, 4] [0, 1, 2, 3, 4] = 10"
    by (simp add: covarianceSum_spec_def roundedMean_spec_def roundedSum_def exact_def upt_rec)
  have code: "crossCorrelation (calculateMotionStatistics exact defaultConfig ?b) = Finite 1"
    by (simp add: calculateMotionStatistics_def Let_def crossCorrelationOf_spec varianceOf_spec
          v c isNaN_def quotientByRoot_def js_div_def exact_def)
  have "sqrt (4 + 1 / 10 ^ 10) \<noteq> sqrt 4"
    by (simp only: real_sqrt_eq_iff) simp
  then have r: "sqrt (4 + 1 / 10 ^ 10) \<noteq> 2" by simp
  have pos: "0 < sqrt (4 + 1 / 10 ^ 10)" by simp
  have spec: "crossCorrelation_spec exact [0, 1, 2, 3, 4] [0, 1, 2, 3, 4] \<noteq> Finite 1"
    using r pos
    by (simp add: crossCorrelation_spec_def v c quotientByRoot_def js_div_def exact_def field_simps)
  show ?thesis using code spec by simp
qed

section \<open>A tick without heading\<close>









section \<open>Yaw is stored and never read\<close>

lemma eraseYawEntry_fields:
  "pitch (eraseYawEntry e) = pitch e" "roll (eraseYawEntry e) = roll e"
  "timestamp (eraseYawEntry e) = timestamp e" "motionMagnitude (eraseYawEntry e) = motionMagnitude e"
  by (simp_all add: eraseYawEntry_def)

lemma eraseYawState_fields:
  "lastPitch (eraseYawState st) = lastPitch st" "lastRoll (eraseYawState st) = lastRoll st"
  "lastHeading (eraseYawState st) = lastHeading st" "maxBufferSize (eraseYawState st) = maxBufferSize st"
  "periods (eraseYawState st) = periods st" "directionBuffer (eraseYawState st) = directionBuffer st"
  "lastDirection (eraseYawState st) = lastDirection st"
  "directionConfidence (eraseYawState st) = directionConfidence st"
  "currentConfig (eraseYawState st) = currentConfig st"
  "attitudeBuffer (eraseYawState st) = map eraseYawEntry (attitudeBuffer st)"
  "lastYaw (eraseYawState st) = None"
  by (simp_all add: eraseYawState_def)

lemma zeroCrossings_eraseYaw: "zeroCrossings (map eraseYawEntry b) = zeroCrossings b"
  unfolding zeroCrossings_def
  by (rule foldl_cong) (auto simp: eraseYawEntry_fields less_imp_diff_less Let_def)

lemma calculatePeriod_eraseYaw:
  "calculatePeriod (eraseYawState st) = (fst (calculatePeriod st), eraseYawState (snd (calculatePeriod st)))"
  by (simp add: calculatePeriod_def Let_def eraseYawState_fields zeroCrossings_eraseYaw)
     (simp add: eraseYawState_def)

lemma periodStage_eraseYaw:
  "periodStage (eraseYawState st) = (fst (periodStage st), eraseYawState (snd (periodStage st)))"
  by (simp add: periodStage_def eraseYawState_fields calculatePeriod_eraseYaw)

lemma calculateMotionStatistics_eraseYaw:
  "calculateMotionStatistics rnd config (map eraseYawEntry b) = calculateMotionStatistics rnd config b"
  by (simp add: calculateMotionStatistics_def comp_def eraseYawEntry_fields)

lemma vectorSum_eraseYaw: "vectorSum (map eraseYawEntry b) = vectorSum b"
  by (simp add: vectorSum_def foldl_map eraseYawEntry_fields split_def)

lemma calculateRelativeWaveDirection_eraseYaw:
  "calculateRelativeWaveDirection (map eraseYawEntry b) stats = calculateRelativeWaveDirection b stats"
  by (simp add: calculateRelativeWaveDirection_def drop_map vectorSum_eraseYaw)

lemma calculateAbsoluteWaveDirection_eraseYaw:
  "calculateAbsoluteWaveDirection (eraseYawState st) (map eraseYawEntry b) stats =
     (fst (calculateAbsoluteWaveDirection st b stats),
      eraseYawState (snd (calculateAbsoluteWaveDirection st b stats)))"
  by (simp add: calculateAbsoluteWaveDirection_def Let_def eraseYawState_fields
        calculateRelativeWaveDirection_eraseYaw split: option.splits)
     (simp add: eraseYawState_def)

lemma directionStage_eraseYaw:
  "directionStage rnd (eraseYawState st) = (fst (directionStage rnd st), eraseYawState (snd (directionStage rnd st)))"
  by (simp add: directionStage_def eraseYawState_fields calculateMotionStatistics_eraseYaw
        calculateAbsoluteWaveDirection_eraseYaw)

lemma pushEntry_eraseYaw:
  "pushEntry m (map eraseYawEntry b) (eraseYawEntry e) = map eraseYawEntry (pushEntry m b e)"
  by (simp add: pushEntry_def Let_def map_tl)

lemma bufferEntryOf_eraseYaw:
  "bufferEntryOf (eraseYawState st) p r now = eraseYawEntry (bufferEntryOf st p r now)"
  by (simp add: bufferEntryOf_def Let_def eraseYawState_fields eraseYawEntry_def)

lemma calculateSeaState_eraseYaw:
  "calculateSeaState rnd (eraseYawState st) now =
     (fst (calculateSeaState rnd st now), eraseYawState (snd (calculateSeaState rnd st now)))"
proof (cases "\<exists>p r. lastPitch st = Some p \<and> lastRoll st = Some r")
  case True
  then obtain p r where pr: "lastPitch st = Some p" "lastRoll st = Some r" by blast
  have st1: "eraseYawState st
               \<lparr>attitudeBuffer := map eraseYawEntry
                  (pushEntry (maxBufferSize st) (attitudeBuffer st) (bufferEntryOf st p r now))\<rparr>
             = eraseYawState
                 (st\<lparr>attitudeBuffer := pushEntry (maxBufferSize st) (attitudeBuffer st) (bufferEntryOf st p r now)\<rparr>)"
    by (simp add: eraseYawState_def)
  show ?thesis
    using pr
    by (simp add: calculateSeaState_Some [of _ p r] Let_def eraseYawState_fields bufferEntryOf_eraseYaw
          pushEntry_eraseYaw eraseYawEntry_fields st1 periodStage_eraseYaw directionStage_eraseYaw)
next
  case False
  then have n: "lastPitch st = None \<or> lastRoll st = None" by auto
  then have "lastPitch (eraseYawState st) = None \<or> lastRoll (eraseYawState st) = None"
    by (simp add: eraseYawState_fields)
  then show ?thesis using n
    by (auto simp: calculateSeaState_def eraseYawState_fields split: option.splits)
qed


lemma updateAttitudeFromValue_eraseYaw:
  "updateAttitudeFromValue (v\<lparr>v_yaw := None\<rparr>) ts (eraseYawState st)
     = eraseYawState (updateAttitudeFromValue v ts st)"
  by (simp add: updateAttitudeFromValue_def eraseYawState_def Let_def split: option.splits)

lemma step_eraseYaw:
  "step rnd (eraseYawState st) (eraseYawEvent e) = (fst (step rnd st e), eraseYawState (snd (step rnd st e)))"
proof (cases e)
  case (AttitudeEvent v ts now)
  then show ?thesis by (simp add: updateAttitudeFromValue_eraseYaw calculateSeaState_eraseYaw)
next
  case (HeadingEvent h)
  then show ?thesis by (simp add: eraseYawState_def)
qed

lemma run_eraseYaw:
  "run rnd (eraseYawState st) (map eraseYawEvent es) = (fst (run rnd st es), eraseYawState (snd (run rnd st es)))"
proof (induction es arbitrary: st)
  case Nil
  show ?case by simp
next
  case (Cons e es)
  show ?case by (simp add: step_eraseYaw Cons.IH case_prod_beta Let_def)
qed

text \<open>
  C10. Two event streams that agree on everything but the yaw values of their attitude samples
  (pitch, roll, timestamps and headings equal; yaw present with any value, or absent), run
  from states that agree on everything but the stored yaw values, and so under the same
  configuration, produce the same result on every tick: the same wave height, heave, period,
  direction, direction confidence and motion magnitude, and a result is absent in one run
  exactly when it is absent in the other.
\<close>

theorem yaw_never_influences_results:
  assumes "map eraseYawEvent es1 = map eraseYawEvent es2"
      and "eraseYawState st1 = eraseYawState st2"
  shows "fst (run rnd st1 es1) = fst (run rnd st2 es2)"
proof -
  have "fst (run rnd st1 es1) = fst (run rnd (eraseYawState st1) (map eraseYawEvent es1))"
    by (simp add: run_eraseYaw)
  also have "\<dots> = fst (run rnd (eraseYawState st2) (map eraseYawEvent es2))"
    using assms by simp
  also have "\<dots> = fst (run rnd st2 es2)" by (simp add: run_eraseYaw)
  finally show ?thesis .
qed

theorem yaw_never_influences_results_witness:
  "(let es1 = [AttitudeEvent \<lparr>v_pitch = Some 1, v_roll = Some 2, v_yaw = Some 3\<rparr> [] 5];
        es2 = [AttitudeEvent \<lparr>v_pitch = Some 1, v_roll = Some 2, v_yaw = None\<rparr> [] 5];
        st1 = start exact defaultConfig initialState;
        st2 = start exact defaultConfig (initialState\<lparr>lastYaw := Some 4\<rparr>)
    in map eraseYawEvent es1 = map eraseYawEvent es2 \<and> eraseYawState st1 = eraseYawState st2 \<and>
       es1 \<noteq> es2 \<and> st1 \<noteq> st2 \<and> fst (run exact st1 es1) = fst (run exact st2 es2))"
proof -
  let ?es1 = "[AttitudeEvent \<lparr>v_pitch = Some 1, v_roll = Some 2, v_yaw = Some 3\<rparr> [] 5]"
  let ?es2 = "[AttitudeEvent \<lparr>v_pitch = Some 1, v_roll = Some 2, v_yaw = None\<rparr> [] 5]"
  let ?st1 = "start exact defaultConfig initialState"
  let ?st2 = "start exact defaultConfig (initialState\<lparr>lastYaw := Some 4\<rparr>)"
  have h1: "map eraseYawEvent ?es1 = map eraseYawEvent ?es2" by simp
  have h2: "eraseYawState ?st1 = eraseYawState ?st2"
    by (simp add: eraseYawState_def start_def initialState_def)
  have d1: "?es1 \<noteq> ?es2" by simp
  have "lastYaw ?st1 \<noteq> lastYaw ?st2" by (simp add: start_def initialState_def)
  then have d2: "?st1 \<noteq> ?st2" by metis
  show ?thesis
    using yaw_never_influences_results [OF h1 h2, of exact] h1 h2 d1 d2 unfolding Let_def by blast
qed

section \<open>The range of the direction\<close>

lemmas run_eval =
  calmStream_def calmSample_def start_def exact_def initialState_def defaultConfig_def
  updateAttitudeFromValue_def calculateSeaState_def Let_def bufferEntryOf_def pushEntry_def js_gt_def
  js_ceil_def js_div_def periodStage_def directionStage_def calculatePeriod_def zeroCrossings_def
  currentPeriodsOf_def upt_rec calculateAbsoluteWaveDirection_def hypot_def
  calculateRelativeWaveDirection_def calculateMotionStatistics_def varianceOf_def meanOf_def
  crossCorrelationOf_def crossSum_def isNaN_def dominantAxisOf_def js_pos_def js_exceeds_def
  smoothDirection_def wrapDelta_def phaseShiftOf_def findPeaks_def

lemma calm_directions_10:
  "map (map_option direction) (fst (run exact (start exact defaultConfig initialState)
      (calmStream h [0, 1000, 2000, 3000, 4000, 5000, 6000, 7000, 8000, 9000])))
   = [None, Some None, Some None, Some None, Some None, Some None, Some None, Some None, Some None,
      Some None, Some (Some (rawAbsoluteDirection (3 * pi / 2) h))]"
  by (simp add: run_eval)

lemma calm_directions_11:
  "map (map_option direction)
     (fst (run exact (start exact (defaultConfig\<lparr>directionSmoothing := 1\<rparr>) initialState)
        (calmStream h [0, 1000, 2000, 3000, 4000, 5000, 6000, 7000, 8000, 9000, 10000])))
   = [None, Some None, Some None, Some None, Some None, Some None, Some None, Some None, Some None,
      Some None, Some (Some (rawAbsoluteDirection (3 * pi / 2) h)),
      Some (Some (ensureRange (rawAbsoluteDirection (3 * pi / 2) h)))]"
  by (simp add: run_eval)

lemma pi_less_8: "pi < 8"
  using pi_less_4 by linarith

lemma calm_raw_20: "rawAbsoluteDirection (3 * pi / 2) 20 = 20 - pi / 2"
  using pi_gt_zero pi_less_8 by (simp add: rawAbsoluteDirection_def ensureRange_def Let_def)

text \<open>
  C4. A direction that is produced is not always below \<open>2\<pi>\<close>. With the default configuration,
  a heading of 20 radians and ten samples of a vessel at rest (pitch and roll 0, so that every
  value of the statistics is 0 whatever the rounding), the relative direction is \<open>3\<pi>/2\<close>, the
  sum with the heading is brought down by one subtraction of \<open>2\<pi>\<close> only, and the tenth tick
  reports the direction \<open>20 - \<pi>/2\<close>.
\<close>

theorem direction_not_below_two_pi:
  "last (map (map_option direction)
      (fst (run exact (start exact defaultConfig initialState)
              (calmStream 20 [0, 1000, 2000, 3000, 4000, 5000, 6000, 7000, 8000, 9000]))))
     = Some (Some (20 - pi / 2)) \<and>
   \<not> 20 - pi / 2 < 2 * pi"
  using pi_less_8 by (simp add: calm_directions_10 calm_raw_20)

section \<open>Smoothing with factor 1\<close>

text \<open>
  C5. With \<open>directionSmoothing = 1\<close> the emitted direction is not always the raw absolute
  direction of the tick. With a heading of 20 radians and eleven samples of a vessel at rest,
  the relative direction of the eleventh tick is \<open>3\<pi>/2\<close> and its raw absolute direction is
  \<open>20 - \<pi>/2\<close> (one subtraction of \<open>2\<pi>\<close>), the value emitted and stored at the tenth tick; the
  eleventh tick emits \<open>20 - 5\<pi>/2\<close>.
\<close>

theorem smoothing_one_emits_other_than_raw:
  "last (map (map_option direction)
      (fst (run exact (start exact (defaultConfig\<lparr>directionSmoothing := 1\<rparr>) initialState)
              (calmStream 20 [0, 1000, 2000, 3000, 4000, 5000, 6000, 7000, 8000, 9000, 10000]))))
     = Some (Some (20 - 5 * pi / 2)) \<and>
   lastHeading (snd (run exact (start exact (defaultConfig\<lparr>directionSmoothing := 1\<rparr>) initialState)
              (calmStream 20 [0, 1000, 2000, 3000, 4000, 5000, 6000, 7000, 8000, 9000, 10000])))
     = Some 20 \<and>
   calculateRelativeWaveDirection
     (attitudeBuffer (snd (run exact (start exact (defaultConfig\<lparr>directionSmoothing := 1\<rparr>) initialState)
              (calmStream 20 [0, 1000, 2000, 3000, 4000, 5000, 6000, 7000, 8000, 9000, 10000]))))
     (calculateMotionStatistics exact (defaultConfig\<lparr>directionSmoothing := 1\<rparr>)
        (attitudeBuffer (snd (run exact (start exact (defaultConfig\<lparr>directionSmoothing := 1\<rparr>) initialState)
              (calmStream 20 [0, 1000, 2000, 3000, 4000, 5000, 6000, 7000, 8000, 9000, 10000])))))
     = Some (3 * pi / 2) \<and>
   rawAbsoluteDirection (3 * pi / 2) 20 = 20 - pi / 2 \<and>
   20 - 5 * pi / 2 \<noteq> 20 - pi / 2"
proof -
  have e: "ensureRange (20 - pi / 2) = 20 - 5 * pi / 2"
    using pi_gt_zero pi_less_4 by (simp add: ensureRange_def Let_def)
  have a: "last (map (map_option direction)
      (fst (run exact (start exact (defaultConfig\<lparr>directionSmoothing := 1\<rparr>) initialState)
              (calmStream 20 [0, 1000, 2000, 3000, 4000, 5000, 6000, 7000, 8000, 9000, 10000]))))
     = Some (Some (20 - 5 * pi / 2))"
    by (simp add: calm_directions_11 calm_raw_20 e)
  have b: "lastHeading (snd (run exact (start exact (defaultConfig\<lparr>directionSmoothing := 1\<rparr>) initialState)
              (calmStream 20 [0, 1000, 2000, 3000, 4000, 5000, 6000, 7000, 8000, 9000, 10000])))
     = Some 20"
    by (simp add: run_eval)
  have c: "calculateRelativeWaveDirection
     (attitudeBuffer (snd (run exact (start exact (defaultConfig\<lparr>directionSmoothing := 1\<rparr>) initialState)
              (calmStream 20 [0, 1000, 2000, 3000, 4000, 5000, 6000, 7000, 8000, 9000, 10000]))))
     (calculateMotionStatistics exact (defaultConfig\<lparr>directionSmoothing := 1\<rparr>)
        (attitudeBuffer (snd (run exact (start exact (defaultConfig\<lparr>directionSmoothing := 1\<rparr>) initialState)
              (calmStream 20 [0, 1000, 2000, 3000, 4000, 5000, 6000, 7000, 8000, 9000, 10000])))))
     = Some (3 * pi / 2)"
    by (simp add: run_eval)
  have d: "20 - 5 * pi / 2 \<noteq> 20 - pi / 2" using pi_gt_zero by simp
  show ?thesis using a b c d calm_raw_20 by blast
qed

end
